theory Spec2Isabelle
  imports Main "HOL-Library.Sublist"
begin

section \<open>JavaScript values and the built-ins the chat component calls\<close>

text \<open>
  The component is \<^verbatim>\<open>src/app/page.tsx\<close>, the second \<^verbatim>\<open>ChatInterface\<close> of the file
  (the one that reads \<^verbatim>\<open>NEXT_PUBLIC_FASTAPI\<close> and has the theme toggle).

  A JavaScript string is modelled as a \<^typ>\<open>string\<close>: one \<^typ>\<open>char\<close> per code unit, for
  code units below 256. A value decoded by \<^verbatim>\<open>response.json()\<close> is a \<^verbatim>\<open>json\<close>. A number is
  given by the text JavaScript writes it with (\<^verbatim>\<open>Number::toString\<close>, never empty): \<^verbatim>\<open>1\<close>, \<^verbatim>\<open>-3\<close>,
  \<^verbatim>\<open>0.5\<close>, \<^verbatim>\<open>1e+21\<close>, \<^verbatim>\<open>12345678901234567000\<close>, and \<^verbatim>\<open>Infinity\<close> for a literal beyond the
  range of a double. Two numbers with the same text differ in nothing the component can see
  (both zeros are written \<^verbatim>\<open>0\<close>). An object lists its own properties in enumeration order,
  each key once.
  The value \<^verbatim>\<open>undefined\<close> (the read of a property that is not there) is \<^term>\<open>None\<close> of
  \<^verbatim>\<open>json option\<close>.
\<close>

datatype json =
    JNull
  | JBool bool
  | JNum string
  | JStr string
  | JArr "json list"
  | JObj "(string \<times> json) list"

text \<open>A thrown value: an instance of \<^verbatim>\<open>Error\<close> with its \<^verbatim>\<open>message\<close>, or anything else.\<close>

datatype thrown = JsError string | NonError

text \<open>\<^verbatim>\<open>typeof\<close> on a decoded value.\<close>

fun typeof :: "json \<Rightarrow> string" where
  "typeof JNull = ''object''"
| "typeof (JBool _) = ''boolean''"
| "typeof (JNum _) = ''number''"
| "typeof (JStr _) = ''string''"
| "typeof (JArr _) = ''object''"
| "typeof (JObj _) = ''object''"

text \<open>Truthiness (\<^verbatim>\<open>ToBoolean\<close>): \<^verbatim>\<open>null\<close>, \<^verbatim>\<open>false\<close>, the zeros, \<^verbatim>\<open>NaN\<close> and \<^verbatim>\<open>""\<close> are falsy,
  every array and object is truthy; \<^verbatim>\<open>undefined\<close> is falsy.\<close>

fun truthy :: "json \<Rightarrow> bool" where
  "truthy JNull = False"
| "truthy (JBool b) = b"
| "truthy (JNum n) = (n \<noteq> ''0'' \<and> n \<noteq> ''NaN'')"
| "truthy (JStr s) = (s \<noteq> [])"
| "truthy (JArr _) = True"
| "truthy (JObj _) = True"

fun truthy_opt :: "json option \<Rightarrow> bool" where
  "truthy_opt None = False"
| "truthy_opt (Some v) = truthy v"

text \<open>The engine's message for the read of property \<open>k\<close> on \<^verbatim>\<open>null\<close> (V8's wording).\<close>

definition null_read_message :: "string \<Rightarrow> string" where
  "null_read_message k =
     ''Cannot read properties of null (reading '' @ [CHR 0x27] @ k @ [CHR 0x27] @ '')''"

text \<open>The property read \<^verbatim>\<open>data.k\<close> for one of the keys the component reads (\<^verbatim>\<open>response\<close>,
  \<^verbatim>\<open>message\<close>, \<^verbatim>\<open>content\<close>): it throws a \<^verbatim>\<open>TypeError\<close> on \<^verbatim>\<open>null\<close>; on a boolean, a number,
  a string or an array it is \<^verbatim>\<open>undefined\<close> (no prototype has these names); on an object it is
  the own property.\<close>

fun get_prop :: "json \<Rightarrow> string \<Rightarrow> thrown + json option" where
  "get_prop JNull k = Inl (JsError (null_read_message k))"
| "get_prop (JBool _) k = Inr None"
| "get_prop (JNum _) k = Inr None"
| "get_prop (JStr _) k = Inr None"
| "get_prop (JArr _) k = Inr None"
| "get_prop (JObj kvs) k = Inr (map_of kvs k)"

subsection \<open>Decimal numerals and \<^verbatim>\<open>JSON.stringify\<close>\<close>

definition digit_char :: "nat \<Rightarrow> char" where
  "digit_char d = ''0123456789'' ! (d mod 10)"

fun show_nat :: "nat \<Rightarrow> string" where
  "show_nat n = (if n < 10 then [digit_char n] else show_nat (n div 10) @ [digit_char (n mod 10)])"

declare show_nat.simps [simp del]

definition hex_char :: "nat \<Rightarrow> char" where
  "hex_char d = ''0123456789abcdef'' ! (d mod 16)"

text \<open>\<^verbatim>\<open>QuoteJSONString\<close>, one code unit: the short escapes, \<^verbatim>\<open>\u00XX\<close> for the other control
  characters, the unit itself otherwise.\<close>

definition quote_char :: "char \<Rightarrow> string" where
  "quote_char c =
     (if c = CHR 0x08 then [CHR 0x5C, CHR ''b'']
      else if c = CHR 0x09 then [CHR 0x5C, CHR ''t'']
      else if c = CHR 0x0A then [CHR 0x5C, CHR ''n'']
      else if c = CHR 0x0C then [CHR 0x5C, CHR ''f'']
      else if c = CHR 0x0D then [CHR 0x5C, CHR ''r'']
      else if c = CHR 0x22 then [CHR 0x5C, CHR 0x22]
      else if c = CHR 0x5C then [CHR 0x5C, CHR 0x5C]
      else if (of_char c :: nat) < 32
        then [CHR 0x5C, CHR ''u'', CHR ''0'', CHR ''0'', hex_char (of_char c div 16), hex_char (of_char c mod 16)]
      else [c])"

definition quote :: "string \<Rightarrow> string" where
  "quote s = [CHR 0x22] @ concat (map quote_char s) @ [CHR 0x22]"

fun join_comma :: "string list \<Rightarrow> string" where
  "join_comma [] = []"
| "join_comma [x] = x"
| "join_comma (x # y # ys) = x @ '','' @ join_comma (y # ys)"

text \<open>\<^verbatim>\<open>JSON.stringify\<close> on a decoded value: a finite number is written with its own text, one
  that is not finite as \<^verbatim>\<open>null\<close>; a string is quoted; the elements of an array and the
  properties of an object are joined with commas.\<close>

fun JSON_stringify :: "json \<Rightarrow> string" where
  "JSON_stringify JNull = ''null''"
| "JSON_stringify (JBool b) = (if b then ''true'' else ''false'')"
| "JSON_stringify (JNum n) =
     (if n = ''Infinity'' \<or> n = ''-Infinity'' \<or> n = ''NaN'' then ''null'' else n)"
| "JSON_stringify (JStr s) = quote s"
| "JSON_stringify (JArr xs) = ''['' @ join_comma (map JSON_stringify xs) @ '']''"
| "JSON_stringify (JObj kvs) =
     ''{'' @ join_comma (map (\<lambda>kv. quote (fst kv) @ '':'' @ JSON_stringify (snd kv)) kvs) @ ''}''"


text \<open>\<^verbatim>\<open>String.prototype.trim\<close>: the white space and line terminators among the code units
  below 256.\<close>

definition is_space :: "char \<Rightarrow> bool" where
  "is_space c = (c \<in> set [CHR 0x09, CHR 0x0A, CHR 0x0B, CHR 0x0C, CHR 0x0D, CHR 0x20, CHR 0xA0])"

definition trim :: "string \<Rightarrow> string" where
  "trim s = rev (dropWhile is_space (rev (dropWhile is_space s)))"

text \<open>\<^verbatim>\<open>String.prototype.includes\<close>: the second string occurs in the first, contiguously.\<close>

fun includes_str :: "string \<Rightarrow> string \<Rightarrow> bool" where
  "includes_str [] t = (t = [])"
| "includes_str (c # cs) t = (prefix t (c # cs) \<or> includes_str cs t)"

section \<open>The component's state\<close>

datatype sender = user | agent

text \<open>\<^verbatim>\<open>interface Message\<close>. The text is typed \<^verbatim>\<open>string\<close>, but a reply's text is taken from the
  decoded body (typed \<^verbatim>\<open>any\<close>) with no conversion, so it is a JavaScript value. The timestamp is
  the clock's reading. \<^verbatim>\<open>isError\<close> is optional: \<^term>\<open>None\<close> when the literal does not set it.\<close>

record message =
  id_msg :: nat
  text_msg :: json
  sender :: sender
  timestamp :: nat
  isError :: "bool option"

text \<open>The four \<^verbatim>\<open>useState\<close> cells of \<^verbatim>\<open>ChatInterface\<close>.\<close>

record chat =
  messages :: "message list"
  inputMessage :: string
  isLoading :: bool
  isDarkMode :: bool

definition welcome_text :: string where
  "welcome_text = ''Hello! I'' @ [CHR 0x27] @ ''m your AI agent. You can ask me anything, including checking weather in different cities. Try typing ''
     @ [CHR 0x27] @ ''Check weather in Karachi'' @ [CHR 0x27] @ '' to see me in action!''"

text \<open>The state of the first render, at clock reading \<open>now\<close>.\<close>

definition initial :: "nat \<Rightarrow> chat" where
  "initial now =
     \<lparr>messages = [\<lparr>id_msg = 1, text_msg = JStr welcome_text, sender = agent, timestamp = now, isError = None\<rparr>],
      inputMessage = [], isLoading = False, isDarkMode = False\<rparr>"

section \<open>The reply's text\<close>

definition fallback_text :: string where
  "fallback_text = ''I received your message but couldn'' @ [CHR 0x27] @ ''t generate a proper response.''"

text \<open>The chain that assigns \<^verbatim>\<open>responseText\<close> from the decoded body \<^verbatim>\<open>data\<close>. Each test is
  a truthiness test of the property read; the read on \<^verbatim>\<open>null\<close> throws.\<close>

definition responseText :: "json \<Rightarrow> thrown + json option" where
  "responseText data =
     (if typeof data = ''string'' then Inr (Some data)
      else case get_prop data ''response'' of
        Inl e \<Rightarrow> Inl e
      | Inr r \<Rightarrow>
          if truthy_opt r then Inr r
          else case get_prop data ''message'' of
            Inl e \<Rightarrow> Inl e
          | Inr m \<Rightarrow>
              if truthy_opt m then Inr m
              else if typeof data = ''object'' then
                (case get_prop data ''content'' of
                   Inl e \<Rightarrow> Inl e
                 | Inr c \<Rightarrow>
                     if truthy_opt c then Inr c
                     else Inr (Some (JStr (JSON_stringify data))))
              else Inr (Some (JStr (JSON_stringify data))))"

text \<open>\<^verbatim>\<open>v || d\<close>.\<close>

definition or_else :: "json option \<Rightarrow> json \<Rightarrow> json" where
  "or_else v d = (case v of None \<Rightarrow> d | Some x \<Rightarrow> if truthy x then x else d)"

section \<open>The error's text\<close>

definition cors_text :: string where
  "cors_text = ''Unable to connect to the AI agent. This might be a CORS issue - the API needs to allow requests from this origin.''"

definition internal_error_text :: string where
  "internal_error_text = ''The AI agent encountered an internal error. Please try again.''"

definition not_found_text :: string where
  "not_found_text = ''API endpoint not found. Please check the URL.''"

definition unknown_error_text :: string where
  "unknown_error_text = ''An unknown error occurred.''"

definition config_error_text :: string where
  "config_error_text = ''FASTAPI environment variable is not configured. Please set NEXT_PUBLIC_FASTAPI in your environment variables.''"

text \<open>The \<^verbatim>\<open>catch\<close> block's choice of \<^verbatim>\<open>errorText\<close>.\<close>

definition errorText :: "thrown \<Rightarrow> string" where
  "errorText error =
     (case error of
        JsError msg \<Rightarrow>
          if includes_str msg ''Failed to fetch'' then cors_text
          else if includes_str msg ''500'' then internal_error_text
          else if includes_str msg ''404'' then not_found_text
          else ''Sorry, I encountered an error: '' @ msg
      | NonError \<Rightarrow> unknown_error_text)"


section \<open>The request and its outcome\<close>

text \<open>What \<^verbatim>\<open>fetch\<close> is called with.\<close>

record request =
  url :: string
  method_req :: string
  headers :: "(string \<times> string) list"
  body :: string

text \<open>What the awaited calls give back: \<^verbatim>\<open>fetch\<close> rejects with a thrown value, or resolves
  to a response with its status and with what \<^verbatim>\<open>response.json()\<close> settles to (the decoded body,
  or the value it rejects with when the body is not JSON).\<close>

record response =
  status :: nat
  json_result :: "thrown + json"

datatype fetch_outcome = Rejected thrown | Resolved response

text \<open>\<^verbatim>\<open>response.ok\<close> (Fetch standard): the status is in the range 200 to 299.\<close>

definition ok :: "response \<Rightarrow> bool" where
  "ok r = (200 \<le> status r \<and> status r \<le> 299)"

text \<open>A call of \<^verbatim>\<open>sendMessage\<close> that has reached its \<^verbatim>\<open>await\<close>: the request it issued, and
  the \<^verbatim>\<open>messages\<close> of the render whose handler it is (the closure's array, whose length the
  reply's id is computed from when the call resumes).\<close>

record pending =
  issued :: request
  closure_messages :: "message list"

section \<open>\<^verbatim>\<open>sendMessage\<close>\<close>

text \<open>The early return when \<^verbatim>\<open>fastapi\<close> is falsy: one error message, nothing else.\<close>

definition config_missing :: "nat \<Rightarrow> chat \<Rightarrow> chat" where
  "config_missing now s =
     s\<lparr>messages := messages s @
        [\<lparr>id_msg = length (messages s) + 2, text_msg = JStr config_error_text, sender = agent,
          timestamp = now, isError = Some True\<rparr>]\<rparr>"

text \<open>\<^verbatim>\<open>sendMessage\<close> up to its first \<^verbatim>\<open>await\<close>. \<open>fastapi\<close> is the module constant read from
  the environment (\<^term>\<open>None\<close> when the variable is not set), \<open>now\<close> the clock's reading,
  \<open>s\<close> the state of the render whose handler runs. The result is the state after the handler's
  updates, and the suspended call when a request was issued.\<close>

definition sendMessage :: "string option \<Rightarrow> nat \<Rightarrow> chat \<Rightarrow> chat \<times> pending option" where
  "sendMessage fastapi now s =
     (if trim (inputMessage s) = [] \<or> isLoading s then (s, None)
      else case fastapi of
        None \<Rightarrow> (config_missing now s, None)
      | Some endpoint \<Rightarrow>
          if endpoint = [] then (config_missing now s, None)
          else
            (s\<lparr>messages := messages s @
                [\<lparr>id_msg = length (messages s) + 1, text_msg = JStr (inputMessage s), sender = user,
                  timestamp = now, isError = None\<rparr>],
               inputMessage := [],
               isLoading := True\<rparr>,
             Some \<lparr>issued =
                     \<lparr>url = endpoint, method_req = ''POST'',
                      headers = [(''Content-Type'', ''application/json'')],
                      body = JSON_stringify (JObj [(''message'', JStr (inputMessage s))])\<rparr>,
                   closure_messages = messages s\<rparr>))"

text \<open>The \<^verbatim>\<open>try\<close> block after the \<^verbatim>\<open>await\<close>: the value of \<^verbatim>\<open>responseText\<close>, or what is
  thrown to the \<^verbatim>\<open>catch\<close>.\<close>

definition try_block :: "fetch_outcome \<Rightarrow> thrown + json option" where
  "try_block outcome =
     (case outcome of
        Rejected e \<Rightarrow> Inl e
      | Resolved r \<Rightarrow>
          if \<not> ok r then Inl (JsError (''HTTP error! status: '' @ show_nat (status r)))
          else case json_result r of
            Inl e \<Rightarrow> Inl e
          | Inr data \<Rightarrow> responseText data)"

text \<open>The rest of \<^verbatim>\<open>sendMessage\<close>, when the request has settled: \<open>closure\<close> is the call's
  \<^verbatim>\<open>messages\<close>, \<open>s\<close> the current state (the updater \<^verbatim>\<open>prev => [...prev, m]\<close> appends to it).
  The \<^verbatim>\<open>finally\<close> block clears \<^verbatim>\<open>isLoading\<close>.\<close>

definition settle :: "message list \<Rightarrow> fetch_outcome \<Rightarrow> nat \<Rightarrow> chat \<Rightarrow> chat" where
  "settle closure outcome now s =
     (let m = (case try_block outcome of
                 Inr v \<Rightarrow>
                   \<lparr>id_msg = length closure + 2, text_msg = or_else v (JStr fallback_text),
                    sender = agent, timestamp = now, isError = None\<rparr>
               | Inl e \<Rightarrow>
                   \<lparr>id_msg = length closure + 2, text_msg = JStr (errorText e),
                    sender = agent, timestamp = now, isError = Some True\<rparr>)
      in s\<lparr>messages := messages s @ [m], isLoading := False\<rparr>)"

section \<open>The theme\<close>

text \<open>What the component touches outside its state: the \<^verbatim>\<open>localStorage\<close> entries, the
  \<^verbatim>\<open>dark\<close> class of the document element, and the media query's answer.\<close>

record browser =
  localStorage :: "string \<rightharpoonup> string"
  dark_class :: bool
  prefersDark :: bool

text \<open>The value the first effect passes to \<^verbatim>\<open>setIsDarkMode\<close>.\<close>

definition saved_or_preferred :: "browser \<Rightarrow> bool" where
  "saved_or_preferred b =
     (let savedTheme = localStorage b ''theme'' in
        savedTheme = Some ''dark'' \<or>
        ((savedTheme = None \<or> savedTheme = Some []) \<and> prefersDark b))"

text \<open>The second effect, run with the rendered \<^verbatim>\<open>isDarkMode\<close>.\<close>

definition apply_theme :: "bool \<Rightarrow> browser \<Rightarrow> browser" where
  "apply_theme dark b =
     (if dark then b\<lparr>localStorage := (localStorage b)(''theme'' \<mapsto> ''dark''), dark_class := True\<rparr>
      else b\<lparr>localStorage := (localStorage b)(''theme'' \<mapsto> ''light''), dark_class := False\<rparr>)"

text \<open>Mounting: both effects run after the first render, in the order they are declared, with
  \<^verbatim>\<open>isDarkMode = false\<close>; the queued update then re-renders, and the second effect runs again
  when the flag has changed.\<close>

definition initialize :: "nat \<Rightarrow> browser \<Rightarrow> chat \<times> browser" where
  "initialize now b =
     (let dark = saved_or_preferred b;
          b1 = apply_theme False b
      in ((initial now)\<lparr>isDarkMode := dark\<rparr>, if dark then apply_theme dark b1 else b1))"

definition toggleDarkMode :: "chat \<Rightarrow> chat" where
  "toggleDarkMode s = s\<lparr>isDarkMode := \<not> isDarkMode s\<rparr>"

text \<open>A click on the toggle: the update, then the second effect of the re-render.\<close>

definition toggle :: "chat \<times> browser \<Rightarrow> chat \<times> browser" where
  "toggle sb = (let s = toggleDarkMode (fst sb) in (s, apply_theme (isDarkMode s) (snd sb)))"

section \<open>Sessions\<close>

text \<open>What can happen to a mounted component: the input's \<^verbatim>\<open>onChange\<close> (the input is disabled
  while loading), the example button, the theme toggle, a submission (Enter or the Send button)
  at a clock reading, and the settling of the \<open>i\<close>-th suspended call with an outcome at a
  clock reading.\<close>

datatype event =
    Typed string
  | ExampleClick
  | ToggleClick
  | Submit nat
  | Settled nat fetch_outcome nat

fun fire :: "string option \<Rightarrow> chat \<times> pending list \<Rightarrow> event \<Rightarrow> chat \<times> pending list" where
  "fire fastapi (s, ps) (Typed v) = (if isLoading s then (s, ps) else (s\<lparr>inputMessage := v\<rparr>, ps))"
| "fire fastapi (s, ps) ExampleClick = (s\<lparr>inputMessage := ''Check weather in Karachi''\<rparr>, ps)"
| "fire fastapi (s, ps) ToggleClick = (toggleDarkMode s, ps)"
| "fire fastapi (s, ps) (Submit now) =
     (case sendMessage fastapi now s of
        (s', None) \<Rightarrow> (s', ps)
      | (s', Some p) \<Rightarrow> (s', ps @ [p]))"
| "fire fastapi (s, ps) (Settled i outcome now) =
     (if i < length ps
      then (settle (closure_messages (ps ! i)) outcome now s, take i ps @ drop (Suc i) ps)
      else (s, ps))"

text \<open>A session: the events in order, from the first render.\<close>

definition session :: "string option \<Rightarrow> nat \<Rightarrow> event list \<Rightarrow> chat \<times> pending list" where
  "session fastapi t0 es = foldl (fire fastapi) (initial t0, []) es"


text \<open>What holds of every state of a session (used in the proofs below): the ids increase along
  the store and are bounded by its length (by one more when no endpoint is configured), the
  loading flag is set exactly when a call is suspended, at most one call is suspended, and a
  suspended call's closure is one message shorter than the store.\<close>

definition session_inv :: "string option \<Rightarrow> chat \<times> pending list \<Rightarrow> bool" where
  "session_inv fastapi st =
     (let s = fst st; ps = snd st; free = (fastapi = None \<or> fastapi = Some []) in
        sorted_wrt (<) (map id_msg (messages s)) \<and>
        (\<forall>m \<in> set (messages s). id_msg m \<le> length (messages s) + (if free then 1 else 0)) \<and>
        isLoading s = (ps \<noteq> []) \<and> length ps \<le> 1 \<and>
        (\<forall>p \<in> set ps. \<not> free \<and> length (closure_messages p) + 1 = length (messages s)))"


section \<open>Properties\<close>

subsection \<open>The cases of \<^verbatim>\<open>sendMessage\<close> and of the settling\<close>

lemma sendMessage_rejected:
  "trim (inputMessage s) = [] \<or> isLoading s \<Longrightarrow> sendMessage fastapi now s = (s, None)"
  by (simp add: sendMessage_def)

lemma sendMessage_unconfigured:
  "trim (inputMessage s) \<noteq> [] \<Longrightarrow> \<not> isLoading s \<Longrightarrow> fastapi = None \<or> fastapi = Some [] \<Longrightarrow>
   sendMessage fastapi now s = (config_missing now s, None)"
  by (auto simp add: sendMessage_def)

lemma sendMessage_configured:
  "trim (inputMessage s) \<noteq> [] \<Longrightarrow> \<not> isLoading s \<Longrightarrow> endpoint \<noteq> [] \<Longrightarrow>
   sendMessage (Some endpoint) now s =
     (s\<lparr>messages := messages s @
          [\<lparr>id_msg = length (messages s) + 1, text_msg = JStr (inputMessage s), sender = user,
            timestamp = now, isError = None\<rparr>],
        inputMessage := [], isLoading := True\<rparr>,
      Some \<lparr>issued = \<lparr>url = endpoint, method_req = ''POST'',
                      headers = [(''Content-Type'', ''application/json'')],
                      body = JSON_stringify (JObj [(''message'', JStr (inputMessage s))])\<rparr>,
            closure_messages = messages s\<rparr>)"
  by (simp add: sendMessage_def)

lemma settle_messages:
  "\<exists>m. messages (settle closure outcome now s) = messages s @ [m] \<and> id_msg m = length closure + 2 \<and> sender m = agent"
  by (simp add: settle_def Let_def split: sum.split)

lemma settle_isLoading: "isLoading (settle closure outcome now s) = False"
  by (simp add: settle_def Let_def)

lemma session_inv_initial: "session_inv fastapi (initial t0, [])"
  by (simp add: session_inv_def initial_def)

lemma session_inv_submit: 
  assumes I: "session_inv fastapi (s, ps)"
  shows "session_inv fastapi (fire fastapi (s, ps) (Submit now))"
proof -
  consider (rej) "trim (inputMessage s) = [] \<or> isLoading s"
    | (free) "trim (inputMessage s) \<noteq> []" "\<not> isLoading s" "fastapi = None \<or> fastapi = Some []"
    | (conf) endpoint where "trim (inputMessage s) \<noteq> []" "\<not> isLoading s" "fastapi = Some endpoint" "endpoint \<noteq> []"
    by (cases fastapi) auto
  then show ?thesis
  proof cases
    case rej
    then show ?thesis using I by (simp add: sendMessage_rejected)
  next
    case free
    then show ?thesis using I
      by (auto simp: sendMessage_unconfigured config_missing_def session_inv_def sorted_wrt_append)
  next
    case conf
    then show ?thesis using I
      by (auto simp: sendMessage_configured session_inv_def sorted_wrt_append)
  qed
qed

lemma session_inv_settled:
  assumes I: "session_inv fastapi (s, ps)"
  shows "session_inv fastapi (fire fastapi (s, ps) (Settled i outcome now))"
proof (cases "i < length ps")
  case False
  then show ?thesis using I by simp
next
  case True
  with I obtain p where ps: "ps = [p]" and i: "i = 0"
    by (cases ps) (auto simp: session_inv_def)
  obtain m where m: "messages (settle (closure_messages p) outcome now s) = messages s @ [m]"
      "id_msg m = length (closure_messages p) + 2"
    using settle_messages by blast
  show ?thesis using I ps i m
    by (auto simp: session_inv_def sorted_wrt_append settle_isLoading)
qed

lemma session_inv_fire: "session_inv fastapi st \<Longrightarrow> session_inv fastapi (fire fastapi st e)"
proof (cases st)
  case (Pair s ps)
  assume I: "session_inv fastapi st"
  show ?thesis
  proof (cases e)
    case (Typed v) with I Pair show ?thesis by (auto simp: session_inv_def)
  next
    case ExampleClick with I Pair show ?thesis by (auto simp: session_inv_def)
  next
    case ToggleClick with I Pair show ?thesis by (auto simp: session_inv_def toggleDarkMode_def)
  next
    case (Submit now)
    with I Pair show ?thesis using session_inv_submit by simp
  next
    case (Settled i outcome now)
    with I Pair show ?thesis using session_inv_settled by simp
  qed
qed

lemma session_inv_foldl: "session_inv fastapi st \<Longrightarrow> session_inv fastapi (foldl (fire fastapi) st es)"
  by (induction es arbitrary: st) (simp_all add: session_inv_fire)

lemma session_inv_session: "session_inv fastapi (session fastapi t0 es)"
  by (simp add: session_def session_inv_foldl session_inv_initial)

subsection \<open>The text of an HTTP error\<close>

lemma digit_char_cases:
  assumes "d < (10::nat)"
  shows "d \<in> {0,1,2,3,4,5,6,7,8,9}"
  using assms by auto

lemma digit_char_is_5: "(CHR ''5'' = digit_char d) = (d mod 10 = 5)"
  using digit_char_cases[of "d mod 10"] by (auto simp: digit_char_def)

lemma digit_char_is_4: "(CHR ''4'' = digit_char d) = (d mod 10 = 4)"
  using digit_char_cases[of "d mod 10"] by (auto simp: digit_char_def)

lemma digit_char_is_0: "(CHR ''0'' = digit_char d) = (d mod 10 = 0)"
  using digit_char_cases[of "d mod 10"] by (auto simp: digit_char_def)

lemma digit_char_F: "digit_char d \<noteq> CHR ''F''"
  using digit_char_cases[of "d mod 10"] by (auto simp: digit_char_def)

lemma three_digits: "(n::nat) = 100 * (n div 100) + 10 * (n div 10 mod 10) + n mod 10"
proof -
  have a: "n = 10 * (n div 10) + n mod 10" by simp
  have b: "n div 10 = 10 * (n div 10 div 10) + n div 10 mod 10" by simp
  have c: "n div 10 div 10 = n div 100" by (simp add: div_mult2_eq)
  have "n = 10 * (10 * (n div 100) + n div 10 mod 10) + n mod 10"
    using a b c by metis
  then show ?thesis by simp
qed

lemma show_nat_3digit:
  assumes "100 \<le> n" "n < 1000"
  shows "show_nat n = [digit_char (n div 100), digit_char (n div 10 mod 10), digit_char (n mod 10)]"
proof -
  have a: "show_nat n = show_nat (n div 10) @ [digit_char (n mod 10)]"
    using assms by (subst show_nat.simps) simp
  have b: "show_nat (n div 10) = show_nat (n div 10 div 10) @ [digit_char (n div 10 mod 10)]"
    using assms by (subst show_nat.simps) simp
  have c: "show_nat (n div 10 div 10) = [digit_char (n div 10 div 10)]"
    using assms by (subst show_nat.simps) simp
  have d: "n div 10 div 10 = n div 100" by (simp add: div_mult2_eq)
  show ?thesis using a b c d by simp
qed

lemma show_nat_no_F: "CHR ''F'' \<notin> set (show_nat n)"
proof (induction n rule: show_nat.induct)
  case (1 n)
  show ?case
  proof (cases "n < 10")
    case True
    then show ?thesis using digit_char_F[of n] by (subst show_nat.simps) auto
  next
    case False
    have "digit_char (n mod 10) \<noteq> CHR ''F''" by (rule digit_char_F)
    with False 1 show ?thesis by (subst show_nat.simps) auto
  qed
qed

lemma includes_str_head: "includes_str s (c # t) \<Longrightarrow> c \<in> set s"
  by (induction s) auto

lemma http_error_500:
  assumes "100 \<le> n" "n < 1000"
  shows "includes_str (''HTTP error! status: '' @ show_nat n) ''500'' = (n = 500)"
proof -
  have "n div 100 mod 10 = n div 100" using assms by simp
  moreover have "(n div 100 = 5 \<and> n div 10 mod 10 = 0 \<and> n mod 10 = 0) = (n = 500)"
    using three_digits[of n] by auto
  ultimately show ?thesis
    by (simp add: show_nat_3digit[OF assms] digit_char_is_5 digit_char_is_0)
qed

lemma http_error_404:
  assumes "100 \<le> n" "n < 1000"
  shows "includes_str (''HTTP error! status: '' @ show_nat n) ''404'' = (n = 404)"
proof -
  have "n div 100 mod 10 = n div 100" using assms by simp
  moreover have "(n div 100 = 4 \<and> n div 10 mod 10 = 0 \<and> n mod 10 = 4) = (n = 404)"
    using three_digits[of n] by auto
  ultimately show ?thesis
    by (simp add: show_nat_3digit[OF assms] digit_char_is_4 digit_char_is_0)
qed

lemma http_error_fetch:
  "\<not> includes_str (''HTTP error! status: '' @ show_nat n) ''Failed to fetch''"
proof
  assume "includes_str (''HTTP error! status: '' @ show_nat n) ''Failed to fetch''"
  then have "CHR ''F'' \<in> set (''HTTP error! status: '' @ show_nat n)"
    by (rule includes_str_head)
  then show False using show_nat_no_F[of n] by simp
qed

subsection \<open>Rejected submissions\<close>

text \<open>
  Claim C4. When the draft is empty or only white space after trimming, or when a request is
  pending (\<^verbatim>\<open>isLoading\<close>), \<^verbatim>\<open>sendMessage\<close> returns at its first line: the whole state (store,
  flag, draft) is what it was and no request is issued, so the suspended calls of the session are
  the same as before.
\<close>

theorem submit_noop:
  "trim (inputMessage s) = [] \<or> isLoading s \<Longrightarrow>
     sendMessage fastapi now s = (s, None) \<and> fire fastapi (s, ps) (Submit now) = (s, ps)"
  by (simp add: sendMessage_rejected)

theorem submit_noop_witness:
  "sendMessage (Some ''https://agent.example/'') 5 ((initial 0)\<lparr>inputMessage := [CHR 0x20, CHR 0x09, CHR 0x20]\<rparr>)
     = ((initial 0)\<lparr>inputMessage := [CHR 0x20, CHR 0x09, CHR 0x20]\<rparr>, None) \<and>
   fire (Some ''https://agent.example/'') ((initial 0)\<lparr>inputMessage := ''hello'', isLoading := True\<rparr>, []) (Submit 5)
     = ((initial 0)\<lparr>inputMessage := ''hello'', isLoading := True\<rparr>, [])"
  using submit_noop [of "(initial 0)\<lparr>inputMessage := [CHR 0x20, CHR 0x09, CHR 0x20]\<rparr>" "Some ''https://agent.example/''" 5 "[]"]
        submit_noop [of "(initial 0)\<lparr>inputMessage := ''hello'', isLoading := True\<rparr>" "Some ''https://agent.example/''" 5 "[]"]
  by (simp add: trim_def is_space_def)

subsection \<open>The endpoint is not configured\<close>

lemma unconfigured_never_pending:
  "fastapi = None \<or> fastapi = Some [] \<Longrightarrow> snd (session fastapi t0 es) = []"
  using session_inv_session[of fastapi t0 es]
  by (cases "snd (session fastapi t0 es)") (auto simp: session_inv_def Let_def)

text \<open>
  Claim C6. When \<^verbatim>\<open>fastapi\<close> is absent (or the empty string, falsy as well), an accepted
  submission appends the fixed configuration message, marked \<^verbatim>\<open>isError\<close>, and issues no request:
  the call returns with nothing suspended, the session's suspended calls are unchanged, and no
  session without an endpoint ever has a request in flight.
\<close>

theorem config_missing_short_circuit:
  assumes "trim (inputMessage s) \<noteq> []" and "\<not> isLoading s"
    and "fastapi = None \<or> fastapi = Some []"
  shows "sendMessage fastapi now s =
           (s\<lparr>messages := messages s @
               [\<lparr>id_msg = length (messages s) + 2, text_msg = JStr config_error_text,
                 sender = agent, timestamp = now, isError = Some True\<rparr>]\<rparr>, None)
         \<and> snd (fire fastapi (s, ps) (Submit now)) = ps
         \<and> snd (session fastapi t0 es) = []"
  using assms unconfigured_never_pending[of fastapi t0 es]
  by (simp add: sendMessage_unconfigured config_missing_def)

theorem config_missing_short_circuit_witness:
  "sendMessage None 7 ((initial 0)\<lparr>inputMessage := ''Check weather in Karachi''\<rparr>) =
     ((initial 0)\<lparr>inputMessage := ''Check weather in Karachi'',
        messages := messages (initial 0) @
          [\<lparr>id_msg = 3, text_msg = JStr config_error_text, sender = agent, timestamp = 7,
            isError = Some True\<rparr>]\<rparr>, None)
   \<and> snd (session None 0 [Typed ''Check weather in Karachi'', Submit 7, Submit 8]) = []"
  using config_missing_short_circuit [of "(initial 0)\<lparr>inputMessage := ''Check weather in Karachi''\<rparr>" None 7 "[]" 0
      "[Typed ''Check weather in Karachi'', Submit 7, Submit 8]"]
  by (simp add: trim_def is_space_def initial_def)

subsection \<open>How much a submission appends\<close>

text \<open>
  Claim C3, as stated, fails when no endpoint is configured: the accepted submission of
  \<^verbatim>\<open>hi\<close> in the first state appends the configuration message only (no user message), nothing
  is suspended that could settle later, and the store has grown by one.
\<close>

theorem submit_growth_counterexample:
  "trim (inputMessage ((initial 0)\<lparr>inputMessage := ''hi''\<rparr>)) \<noteq> [] \<and>
   \<not> isLoading ((initial 0)\<lparr>inputMessage := ''hi''\<rparr>) \<and>
   sendMessage None 1 ((initial 0)\<lparr>inputMessage := ''hi''\<rparr>) =
     ((initial 0)\<lparr>inputMessage := ''hi'',
        messages := messages (initial 0) @
          [\<lparr>id_msg = 3, text_msg = JStr config_error_text, sender = agent, timestamp = 1,
            isError = Some True\<rparr>]\<rparr>, None) \<and>
   length (messages (fst (session None 0 [Typed ''hi'', Submit 1]))) = length (messages (initial 0)) + 1 \<and>
   snd (session None 0 [Typed ''hi'', Submit 1]) = []"
  by (simp add: session_def sendMessage_def config_missing_def initial_def trim_def is_space_def)

text \<open>
  Claim C3, amended. For an accepted submission (draft not empty after trimming, no request
  pending): with an endpoint configured, \<^verbatim>\<open>sendMessage\<close> appends exactly one user message at once
  and suspends, and when the request settles, whatever the outcome, exactly one agent message
  (a reply or an error) is appended after it, so the store has grown by exactly 2; with no
  endpoint configured it appends exactly one message, the configuration error, and nothing
  is suspended.
\<close>

theorem submit_growth:
  assumes "trim (inputMessage s) \<noteq> []" and "\<not> isLoading s"
  shows "(endpoint \<noteq> [] \<longrightarrow>
            (\<exists>s1 p um. sendMessage (Some endpoint) now s = (s1, Some p) \<and>
               messages s1 = messages s @ [um] \<and> sender um = user \<and>
               (\<forall>outcome now2 s2. messages s2 = messages s1 \<longrightarrow>
                  (\<exists>rm. messages (settle (closure_messages p) outcome now2 s2) = messages s @ [um, rm] \<and>
                        sender rm = agent \<and>
                        length (messages (settle (closure_messages p) outcome now2 s2)) = length (messages s) + 2)))) \<and>
         (fastapi = None \<or> fastapi = Some [] \<longrightarrow>
            (\<exists>em. sendMessage fastapi now s = (s\<lparr>messages := messages s @ [em]\<rparr>, None) \<and>
                  sender em = agent \<and> isError em = Some True))"
proof (intro conjI impI)
  assume e: "endpoint \<noteq> []"
  let ?um = "\<lparr>id_msg = length (messages s) + 1, text_msg = JStr (inputMessage s), sender = user,
            timestamp = now, isError = None\<rparr>"
  obtain s1 p where sp: "sendMessage (Some endpoint) now s = (s1, Some p)"
    and m1: "messages s1 = messages s @ [?um]"
    using sendMessage_configured[OF assms e, of now] by simp
  have "\<exists>rm. messages (settle (closure_messages p) outcome now2 s2) = messages s @ [?um, rm] \<and>
          sender rm = agent \<and>
          length (messages (settle (closure_messages p) outcome now2 s2)) = length (messages s) + 2"
    if "messages s2 = messages s1" for outcome now2 s2
    using settle_messages[of "closure_messages p" outcome now2 s2] that m1 by auto
  with sp m1 show "\<exists>s1 p um. sendMessage (Some endpoint) now s = (s1, Some p) \<and>
               messages s1 = messages s @ [um] \<and> sender um = user \<and>
               (\<forall>outcome now2 s2. messages s2 = messages s1 \<longrightarrow>
                  (\<exists>rm. messages (settle (closure_messages p) outcome now2 s2) = messages s @ [um, rm] \<and>
                        sender rm = agent \<and>
                        length (messages (settle (closure_messages p) outcome now2 s2)) = length (messages s) + 2))"
    by (intro exI[of _ s1] exI[of _ p] exI[of _ ?um]) simp
next
  assume "fastapi = None \<or> fastapi = Some []"
  then show "\<exists>em. sendMessage fastapi now s = (s\<lparr>messages := messages s @ [em]\<rparr>, None) \<and>
                  sender em = agent \<and> isError em = Some True"
    using assms
    by (intro exI[of _ "\<lparr>id_msg = length (messages s) + 2, text_msg = JStr config_error_text,
                 sender = agent, timestamp = now, isError = Some True\<rparr>"])
       (simp add: sendMessage_unconfigured config_missing_def)
qed

theorem submit_growth_witness:
  "trim (inputMessage ((initial 0)\<lparr>inputMessage := ''hi''\<rparr>)) \<noteq> [] \<and>
   \<not> isLoading ((initial 0)\<lparr>inputMessage := ''hi''\<rparr>) \<and>
   (\<exists>s1 p um rm. sendMessage (Some ''https://agent.example/'') 1 ((initial 0)\<lparr>inputMessage := ''hi''\<rparr>) = (s1, Some p) \<and>
      messages s1 = messages ((initial 0)\<lparr>inputMessage := ''hi''\<rparr>) @ [um] \<and> sender um = user \<and>
      messages (settle (closure_messages p) (Rejected NonError) 2 s1) =
        messages ((initial 0)\<lparr>inputMessage := ''hi''\<rparr>) @ [um, rm] \<and> sender rm = agent)"
proof -
  let ?S = "(initial 0)\<lparr>inputMessage := ''hi''\<rparr>"
  have a: "trim (inputMessage ?S) \<noteq> []"
    by (simp add: trim_def is_space_def)
  have b: "\<not> isLoading ?S"
    by (simp add: initial_def)
  have c: "''https://agent.example/'' \<noteq> []" by simp
  from submit_growth [OF a b, of "''https://agent.example/''" 1 None] c
  obtain s1 p um where 1:
    "sendMessage (Some ''https://agent.example/'') 1 ?S = (s1, Some p)"
    "messages s1 = messages ?S @ [um]" "sender um = user"
    and 2: "\<forall>outcome now2 s2. messages s2 = messages s1 \<longrightarrow>
        (\<exists>rm. messages (settle (closure_messages p) outcome now2 s2) = messages ?S @ [um, rm] \<and>
              sender rm = agent \<and>
              length (messages (settle (closure_messages p) outcome now2 s2)) = length (messages ?S) + 2)"
    by blast
  from 2 obtain rm where
    "messages (settle (closure_messages p) (Rejected NonError) 2 s1) = messages ?S @ [um, rm]" "sender rm = agent"
    by blast
  with 1 a b show ?thesis by blast
qed

subsection \<open>Sessions: the loading flag and the ids\<close>

lemma session_snoc: "session fastapi t0 (es @ [e]) = fire fastapi (session fastapi t0 es) e"
  by (simp add: session_def)

lemma fire_appends: "\<exists>new. messages (fst (fire fastapi st e)) = messages (fst st) @ new"
proof (cases st)
  case (Pair s ps)
  show ?thesis
  proof (cases e)
    case (Submit now)
    then show ?thesis using Pair
      by (cases fastapi) (auto simp: sendMessage_def config_missing_def)
  next
    case (Settled i outcome now)
    then show ?thesis using Pair settle_messages[of "closure_messages (ps ! i)" outcome now s]
      by auto
  qed (use Pair in \<open>auto simp: toggleDarkMode_def\<close>)
qed

text \<open>
  Claim C7. In every state of every session the flag \<^verbatim>\<open>isLoading\<close> is set exactly when a call of
  \<^verbatim>\<open>sendMessage\<close> is suspended at its request, and at most one is. An accepted submission with
  an endpoint sets the flag and issues the request; the settling clears it whatever the outcome
  (reply, HTTP failure, network failure, body that is not JSON), and leaves nothing suspended,
  so the next submission is accepted again.
\<close>

theorem loading_flag:
  "isLoading (fst (session fastapi t0 es)) = (snd (session fastapi t0 es) \<noteq> []) \<and>
   length (snd (session fastapi t0 es)) \<le> 1 \<and>
   (trim (inputMessage s) \<noteq> [] \<and> \<not> isLoading s \<and> endpoint \<noteq> [] \<longrightarrow>
      isLoading (fst (sendMessage (Some endpoint) now s)) \<and>
      snd (sendMessage (Some endpoint) now s) \<noteq> None) \<and>
   \<not> isLoading (settle closure outcome now s) \<and>
   (snd (session fastapi t0 es) = [p] \<longrightarrow>
      session fastapi t0 (es @ [Settled 0 outcome now]) =
        (settle (closure_messages p) outcome now (fst (session fastapi t0 es)), []))"
proof -
  have "session_inv fastapi (session fastapi t0 es)" by (rule session_inv_session)
  then have "isLoading (fst (session fastapi t0 es)) = (snd (session fastapi t0 es) \<noteq> [])"
    and "length (snd (session fastapi t0 es)) \<le> 1"
    by (simp_all add: session_inv_def Let_def)
  moreover have "snd (session fastapi t0 es) = [p] \<longrightarrow>
      session fastapi t0 (es @ [Settled 0 outcome now]) =
        (settle (closure_messages p) outcome now (fst (session fastapi t0 es)), [])"
    by (cases "session fastapi t0 es") (simp add: session_snoc)
  ultimately show ?thesis
    by (simp add: settle_isLoading sendMessage_configured)
qed

theorem loading_flag_witness:
  "isLoading (fst (session (Some ''https://agent.example/'') 0 [Typed ''hi'', Submit 1])) \<and>
   length (snd (session (Some ''https://agent.example/'') 0 [Typed ''hi'', Submit 1])) = 1 \<and>
   \<not> isLoading (fst (session (Some ''https://agent.example/'') 0
        [Typed ''hi'', Submit 1, Settled 0 (Rejected (JsError ''Failed to fetch'')) 2])) \<and>
   snd (session (Some ''https://agent.example/'') 0
        [Typed ''hi'', Submit 1, Settled 0 (Rejected (JsError ''Failed to fetch'')) 2]) = []"
  using loading_flag [where fastapi = "Some ''https://agent.example/''" and ?t0.0 = 0
      and es = "[Typed ''hi'', Submit 1]" and s = "(initial 0)\<lparr>inputMessage := ''hi''\<rparr>"
      and endpoint = "''https://agent.example/''" and now = 2 and closure = "[]"
      and outcome = "Rejected (JsError ''Failed to fetch'')"
      and p = "\<lparr>issued = \<lparr>url = ''https://agent.example/'', method_req = ''POST'',
                      headers = [(''Content-Type'', ''application/json'')],
                      body = JSON_stringify (JObj [(''message'', JStr ''hi'')])\<rparr>,
                closure_messages = messages (initial 0)\<rparr>"]
  by (simp add: session_def sendMessage_def initial_def trim_def is_space_def settle_def)

text \<open>
  Claim C8. In every state of every session the ids increase strictly along the store, so no
  two messages share an id, and whatever an event appends (a user message, a reply, an error,
  the configuration error) has an id above every id already in the store.
\<close>

theorem ids_increase:
  "sorted_wrt (<) (map id_msg (messages (fst (session fastapi t0 es)))) \<and>
   distinct (map id_msg (messages (fst (session fastapi t0 es)))) \<and>
   (\<exists>new. messages (fst (session fastapi t0 (es @ [e]))) = messages (fst (session fastapi t0 es)) @ new \<and>
       (\<forall>m \<in> set new. \<forall>m0 \<in> set (messages (fst (session fastapi t0 es))). id_msg m0 < id_msg m))"
proof -
  have s: "sorted_wrt (<) (map id_msg (messages (fst (session fastapi t0 es))))" for es
    using session_inv_session[of fastapi t0 es] by (simp add: session_inv_def Let_def)
  obtain new where n: "messages (fst (session fastapi t0 (es @ [e]))) = messages (fst (session fastapi t0 es)) @ new"
    using fire_appends[of fastapi "session fastapi t0 es" e] by (auto simp: session_snoc)
  have "\<forall>m \<in> set new. \<forall>m0 \<in> set (messages (fst (session fastapi t0 es))). id_msg m0 < id_msg m"
    using s[of "es @ [e]"] unfolding n by (auto simp: sorted_wrt_append)
  with n s[of es] show ?thesis
    using strict_sorted_iff[of "map id_msg (messages (fst (session fastapi t0 es)))"] by blast
qed

theorem ids_increase_witness:
  "map id_msg (messages (fst (session (Some ''https://agent.example/'') 0
      [Typed ''hi'', Submit 1, Settled 0 (Rejected NonError) 2, ExampleClick, Submit 3]))) = [1, 2, 3, 4] \<and>
   sorted_wrt (<) (map id_msg (messages (fst (session (Some ''https://agent.example/'') 0
      [Typed ''hi'', Submit 1, Settled 0 (Rejected NonError) 2, ExampleClick, Submit 3])))) \<and>
   map id_msg (messages (fst (session None 0 [Typed ''hi'', Submit 1, Submit 2, Submit 3]))) = [1, 3, 4, 5]"
  using ids_increase [of "Some ''https://agent.example/''" 0
      "[Typed ''hi'', Submit 1, Settled 0 (Rejected NonError) 2, ExampleClick]" "Submit 3"]
  by (simp add: session_def sendMessage_def initial_def trim_def is_space_def settle_def config_missing_def
      try_block_def errorText_def)

subsection \<open>The theme\<close>

text \<open>
  Claim C9. Two clicks on the toggle restore the flag. After a click the \<^verbatim>\<open>theme\<close> entry of
  \<^verbatim>\<open>localStorage\<close> is \<^verbatim>\<open>dark\<close> when the flag is set and \<^verbatim>\<open>light\<close> when it is not, and a later
  mount that finds this entry resolves to the same flag, whatever the media query answers.
  The mount itself leaves the entry in agreement with the flag.
\<close>

theorem theme_toggle_roundtrip:
  "isDarkMode (fst (toggle (toggle (s, b)))) = isDarkMode s \<and>
   localStorage (snd (toggle (s, b))) ''theme'' =
     Some (if isDarkMode (fst (toggle (s, b))) then ''dark'' else ''light'') \<and>
   isDarkMode (fst (initialize now ((snd (toggle (s, b)))\<lparr>dark_class := c, prefersDark := p\<rparr>))) =
     isDarkMode (fst (toggle (s, b))) \<and>
   localStorage (snd (initialize now b)) ''theme'' =
     Some (if isDarkMode (fst (initialize now b)) then ''dark'' else ''light'')"
  by (simp add: toggle_def toggleDarkMode_def apply_theme_def initialize_def saved_or_preferred_def Let_def)

subsection \<open>The reply's text: precedence\<close>

text \<open>
  Claim C1, as stated, fails: the body \<^verbatim>\<open>{"response": "", "message": "y"}\<close> is an object with
  a \<^verbatim>\<open>response\<close> field, whose value is the empty string, and the text taken is \<^verbatim>\<open>y\<close>, the value
  of \<^verbatim>\<open>message\<close>: the chain tests each field for truthiness, not for presence.
\<close>

theorem responseText_precedence_counterexample:
  "get_prop (JObj [(''response'', JStr ''''), (''message'', JStr ''y'')]) ''response'' = Inr (Some (JStr '''')) \<and>
   responseText (JObj [(''response'', JStr ''''), (''message'', JStr ''y'')]) = Inr (Some (JStr ''y'')) \<and>
   responseText (JObj [(''response'', JStr ''''), (''message'', JStr ''y'')]) \<noteq> Inr (Some (JStr ''''))"
  by (simp add: responseText_def)

text \<open>
  Claim C1, amended. A string body is used verbatim. For every other decoded body except
  \<^verbatim>\<open>null\<close>, the three property reads succeed, and the text is the value of the first of
  \<^verbatim>\<open>response\<close>, \<^verbatim>\<open>message\<close>, \<^verbatim>\<open>content\<close> that is truthy (a field that is absent or falsy is
  passed over); when none is, it is the serialization of the whole body.
\<close>

theorem responseText_precedence:
  "responseText (JStr t) = Inr (Some (JStr t)) \<and>
   (data \<noteq> JNull \<and> typeof data \<noteq> ''string'' \<longrightarrow>
      (\<exists>r m c. get_prop data ''response'' = Inr r \<and> get_prop data ''message'' = Inr m \<and>
         get_prop data ''content'' = Inr c \<and>
         responseText data =
           Inr (if truthy_opt r then r
                else if truthy_opt m then m
                else if truthy_opt c then c
                else Some (JStr (JSON_stringify data)))))"
proof (intro conjI impI)
  show "responseText (JStr t) = Inr (Some (JStr t))" by (simp add: responseText_def)
next
  assume "data \<noteq> JNull \<and> typeof data \<noteq> ''string''"
  then show "\<exists>r m c. get_prop data ''response'' = Inr r \<and> get_prop data ''message'' = Inr m \<and>
         get_prop data ''content'' = Inr c \<and>
         responseText data =
           Inr (if truthy_opt r then r
                else if truthy_opt m then m
                else if truthy_opt c then c
                else Some (JStr (JSON_stringify data)))"
    by (cases data) (simp_all add: responseText_def)
qed

theorem responseText_precedence_witness:
  "responseText (JStr ''hello'') = Inr (Some (JStr ''hello'')) \<and>
   responseText (JObj [(''response'', JStr ''x'')]) = Inr (Some (JStr ''x'')) \<and>
   responseText (JObj [(''message'', JStr ''y'')]) = Inr (Some (JStr ''y'')) \<and>
   responseText (JObj [(''content'', JStr ''z'')]) = Inr (Some (JStr ''z'')) \<and>
   responseText (JObj [(''other'', JNum ''1'')]) =
     Inr (Some (JStr (''{'' @ [CHR 0x22] @ ''other'' @ [CHR 0x22] @ '':1}''))) \<and>
   responseText (JObj [(''response'', JNum ''0''), (''message'', JStr ''y'')]) = Inr (Some (JStr ''y'')) \<and>
   responseText (JObj [(''response'', JNum ''5'')]) = Inr (Some (JNum ''5'')) \<and>
   responseText (JNum ''1e+21'') = Inr (Some (JStr ''1e+21'')) \<and>
   responseText (JArr [JNum ''0.5'', JNum ''12345678901234567000'', JNum ''Infinity'']) =
     Inr (Some (JStr ''[0.5,12345678901234567000,null]''))"
  using responseText_precedence [of "''hello''" "JObj [(''response'', JStr ''x'')]"]
        responseText_precedence [of "''hello''" "JObj [(''message'', JStr ''y'')]"]
        responseText_precedence [of "''hello''" "JObj [(''content'', JStr ''z'')]"]
        responseText_precedence [of "''hello''" "JObj [(''other'', JNum ''1'')]"]
        responseText_precedence [of "''hello''" "JObj [(''response'', JNum ''0''), (''message'', JStr ''y'')]"]
        responseText_precedence [of "''hello''" "JObj [(''response'', JNum ''5'')]"]
        responseText_precedence [of "''hello''" "JNum ''1e+21''"]
        responseText_precedence [of "''hello''" "JArr [JNum ''0.5'', JNum ''12345678901234567000'', JNum ''Infinity'']"]
  by (simp add: quote_def quote_char_def)

subsection \<open>The reply's text: the fallback sentence\<close>

text \<open>The serialization is never empty (a number's text is not), so the only body whose text
  comes out falsy is the empty string; for it the fallback sentence is appended, with no error
  mark.\<close>

lemma JSON_stringify_not_Nil: "v \<noteq> JNum [] \<Longrightarrow> JSON_stringify v \<noteq> []"
  by (cases v) (simp_all add: quote_def)

lemma falsy_only_empty_string:
  "data \<noteq> JNum [] \<Longrightarrow> responseText data = Inr v \<Longrightarrow> \<not> truthy_opt v \<Longrightarrow> data = JStr []"
  by (cases data) (auto simp: responseText_def quote_def split: if_splits)

lemma empty_reply_fallback:
  "ok r \<Longrightarrow> json_result r = Inr data \<Longrightarrow> responseText data = Inr v \<Longrightarrow> \<not> truthy_opt v \<Longrightarrow>
   settle closure (Resolved r) now s =
     s\<lparr>messages := messages s @
         [\<lparr>id_msg = length closure + 2, text_msg = JStr fallback_text, sender = agent,
           timestamp = now, isError = None\<rparr>],
       isLoading := False\<rparr>"
  by (cases v) (simp_all add: settle_def try_block_def or_else_def)

text \<open>
  Claim C2 at the body \<^verbatim>\<open>null\<close> of a response with status 200: the read of \<^verbatim>\<open>data.response\<close>
  throws inside the \<^verbatim>\<open>try\<close> block, so what is appended is the generic error text with the
  engine's message, marked \<^verbatim>\<open>isError\<close>, and not the fallback sentence.
\<close>

theorem null_body_is_error:
  "ok \<lparr>status = 200, json_result = Inr JNull\<rparr> \<and>
   settle closure (Resolved \<lparr>status = 200, json_result = Inr JNull\<rparr>) now s =
     s\<lparr>messages := messages s @
         [\<lparr>id_msg = length closure + 2,
           text_msg = JStr (''Sorry, I encountered an error: '' @ null_read_message ''response''),
           sender = agent, timestamp = now, isError = Some True\<rparr>],
       isLoading := False\<rparr>"
  by (simp add: settle_def try_block_def ok_def responseText_def errorText_def null_read_message_def)

subsection \<open>The error's text\<close>

lemma settle_error:
  "try_block outcome = Inl e \<Longrightarrow>
   settle closure outcome now s =
     s\<lparr>messages := messages s @
         [\<lparr>id_msg = length closure + 2, text_msg = JStr (errorText e), sender = agent,
           timestamp = now, isError = Some True\<rparr>],
       isLoading := False\<rparr>"
  by (simp add: settle_def)

lemma try_block_http_error:
  "\<not> ok r \<Longrightarrow> try_block (Resolved r) = Inl (JsError (''HTTP error! status: '' @ show_nat (status r)))"
  by (simp add: try_block_def)

lemma errorText_http:
  assumes "100 \<le> n" and "n < 1000"
  shows "errorText (JsError (''HTTP error! status: '' @ show_nat n)) =
           (if n = 500 then internal_error_text
            else if n = 404 then not_found_text
            else ''Sorry, I encountered an error: HTTP error! status: '' @ show_nat n)"
  using http_error_fetch[of n] http_error_500[OF assms] http_error_404[OF assms]
  by (simp add: errorText_def)

text \<open>
  Claim C5, as stated, fails in three places. A response with status 503, of the 500 class, is
  answered with the generic text that quotes the status, not with the internal-error text. A
  network failure that the browser words \<^verbatim>\<open>Load failed\<close> is answered with the generic text, not
  with the connectivity hint. A reply with status 200 whose body is not JSON, where the
  \<^verbatim>\<open>SyntaxError\<close> quotes a body that mentions 404, is answered with the endpoint-not-found text,
  not with the generic text that includes the error's own.
\<close>

theorem error_text_mapping_counterexample:
  "\<not> ok \<lparr>status = 503, json_result = Inr (JStr ''Service Unavailable'')\<rparr> \<and>
   text_msg (last (messages (fst (session (Some ''https://agent.example/'') 0
      [Typed ''hi'', Submit 1,
       Settled 0 (Resolved \<lparr>status = 503, json_result = Inr (JStr ''Service Unavailable'')\<rparr>) 2]))))
     = JStr ''Sorry, I encountered an error: HTTP error! status: 503'' \<and>
   text_msg (last (messages (fst (session (Some ''https://agent.example/'') 0
      [Typed ''hi'', Submit 1,
       Settled 0 (Resolved \<lparr>status = 503, json_result = Inr (JStr ''Service Unavailable'')\<rparr>) 2]))))
     \<noteq> JStr internal_error_text \<and>
   text_msg (last (messages (fst (session (Some ''https://agent.example/'') 0
      [Typed ''hi'', Submit 1, Settled 0 (Rejected (JsError ''Load failed'')) 2]))))
     = JStr ''Sorry, I encountered an error: Load failed'' \<and>
   text_msg (last (messages (fst (session (Some ''https://agent.example/'') 0
      [Typed ''hi'', Submit 1, Settled 0 (Rejected (JsError ''Load failed'')) 2]))))
     \<noteq> JStr cors_text \<and>
   ok \<lparr>status = 200, json_result = Inl (JsError (''Unexpected token '' @ [CHR 0x27] @ ''<'' @ [CHR 0x27] @ '', ''
        @ [CHR 0x22] @ ''<h1>404</h1>'' @ [CHR 0x22] @ '' is not valid JSON''))\<rparr> \<and>
   text_msg (last (messages (fst (session (Some ''https://agent.example/'') 0
      [Typed ''hi'', Submit 1,
       Settled 0 (Resolved \<lparr>status = 200, json_result = Inl (JsError (''Unexpected token '' @ [CHR 0x27] @ ''<'' @ [CHR 0x27] @ '', ''
        @ [CHR 0x22] @ ''<h1>404</h1>'' @ [CHR 0x22] @ '' is not valid JSON''))\<rparr>) 2]))))
     = JStr not_found_text \<and>
   text_msg (last (messages (fst (session (Some ''https://agent.example/'') 0
      [Typed ''hi'', Submit 1,
       Settled 0 (Resolved \<lparr>status = 200, json_result = Inl (JsError (''Unexpected token '' @ [CHR 0x27] @ ''<'' @ [CHR 0x27] @ '', ''
        @ [CHR 0x22] @ ''<h1>404</h1>'' @ [CHR 0x22] @ '' is not valid JSON''))\<rparr>) 2]))))
     \<noteq> JStr (''Sorry, I encountered an error: '' @ ''Unexpected token '' @ [CHR 0x27] @ ''<'' @ [CHR 0x27] @ '', ''
        @ [CHR 0x22] @ ''<h1>404</h1>'' @ [CHR 0x22] @ '' is not valid JSON'')"
  by (simp add: session_def sendMessage_def initial_def trim_def is_space_def settle_def
      try_block_def ok_def errorText_def show_nat.simps digit_char_def internal_error_text_def
      cors_text_def not_found_text_def)

text \<open>
  Claim C5, amended. A response that is not \<^verbatim>\<open>ok\<close> throws an \<^verbatim>\<open>Error\<close> that quotes its status:
  status 500 gives the internal-error text, status 404 the endpoint-not-found text, and every
  other three-digit status that is not \<^verbatim>\<open>ok\<close> (the rest of the 500 class among them) the
  generic text with the status. A rejected \<^verbatim>\<open>fetch\<close> whose \<^verbatim>\<open>Error\<close> says \<^verbatim>\<open>Failed to fetch\<close>
  gives the connectivity hint. Any other thrown \<^verbatim>\<open>Error\<close>, from \<^verbatim>\<open>fetch\<close> or from decoding the body,
  whose message has none of \<^verbatim>\<open>Failed to fetch\<close>, \<^verbatim>\<open>500\<close>, \<^verbatim>\<open>404\<close> in it gives the generic text
  followed by the message. A thrown value that is not an \<^verbatim>\<open>Error\<close> gives the unknown-error text.
  Each of these messages is marked \<^verbatim>\<open>isError\<close>. Nothing is said of a network failure worded
  otherwise, nor of another \<^verbatim>\<open>Error\<close> whose message happens to contain one of the three.
\<close>

theorem error_text_mapping:
  "(status r = 500 \<longrightarrow>
      text_msg (last (messages (settle closure (Resolved r) now s))) = JStr internal_error_text) \<and>
   (status r = 404 \<longrightarrow>
      text_msg (last (messages (settle closure (Resolved r) now s))) = JStr not_found_text) \<and>
   (100 \<le> status r \<and> status r < 1000 \<and> \<not> ok r \<and> status r \<noteq> 500 \<and> status r \<noteq> 404 \<longrightarrow>
      text_msg (last (messages (settle closure (Resolved r) now s))) =
        JStr (''Sorry, I encountered an error: HTTP error! status: '' @ show_nat (status r))) \<and>
   (includes_str msg ''Failed to fetch'' \<longrightarrow>
      text_msg (last (messages (settle closure (Rejected (JsError msg)) now s))) = JStr cors_text) \<and>
   (\<not> includes_str msg ''Failed to fetch'' \<and> \<not> includes_str msg ''500'' \<and> \<not> includes_str msg ''404'' \<longrightarrow>
      text_msg (last (messages (settle closure (Rejected (JsError msg)) now s))) =
        JStr (''Sorry, I encountered an error: '' @ msg) \<and>
      (ok r \<and> json_result r = Inl (JsError msg) \<longrightarrow>
         text_msg (last (messages (settle closure (Resolved r) now s))) =
           JStr (''Sorry, I encountered an error: '' @ msg))) \<and>
   text_msg (last (messages (settle closure (Rejected NonError) now s))) = JStr unknown_error_text \<and>
   (ok r \<and> json_result r = Inl NonError \<longrightarrow>
      text_msg (last (messages (settle closure (Resolved r) now s))) = JStr unknown_error_text) \<and>
   isError (last (messages (settle closure (Rejected e) now s))) = Some True \<and>
   (\<not> ok r \<or> json_result r = Inl e \<longrightarrow>
      isError (last (messages (settle closure (Resolved r) now s))) = Some True)"
proof -
  let ?text = "\<lambda>outcome. text_msg (last (messages (settle closure outcome now s)))"
  have rej: "?text (Rejected x) = JStr (errorText x)" for x
    by (simp add: settle_error[of "Rejected x" x] try_block_def)
  have flag: "isError (last (messages (settle closure (Rejected e) now s))) = Some True"
    by (simp add: settle_error[of "Rejected e" e] try_block_def)
  have bad: "?text (Resolved r) = JStr (errorText x)"
    and bflag: "isError (last (messages (settle closure (Resolved r) now s))) = Some True"
    if "ok r" "json_result r = Inl x" for x
    using that by (simp_all add: settle_def try_block_def)
  have http: "?text (Resolved r) = JStr (errorText (JsError (''HTTP error! status: '' @ show_nat (status r))))"
    and hflag: "isError (last (messages (settle closure (Resolved r) now s))) = Some True"
    if "\<not> ok r"
    using settle_error[OF try_block_http_error[OF that], of closure now s] by simp_all
  have t500: "?text (Resolved r) = JStr internal_error_text" if "status r = 500"
  proof -
    from that have "\<not> ok r" "100 \<le> status r" "status r < 1000" by (simp_all add: ok_def)
    then show ?thesis using http errorText_http[of "status r"] that by simp
  qed
  have t404: "?text (Resolved r) = JStr not_found_text" if "status r = 404"
  proof -
    from that have "\<not> ok r" "100 \<le> status r" "status r < 1000" by (simp_all add: ok_def)
    then show ?thesis using http errorText_http[of "status r"] that by simp
  qed
  have tother: "?text (Resolved r) =
        JStr (''Sorry, I encountered an error: HTTP error! status: '' @ show_nat (status r))"
    if "100 \<le> status r" "status r < 1000" "\<not> ok r" "status r \<noteq> 500" "status r \<noteq> 404"
    using http[OF that(3)] errorText_http[OF that(1,2)] that(4,5) by simp
  have a: "includes_str msg ''Failed to fetch'' \<longrightarrow> ?text (Rejected (JsError msg)) = JStr cors_text"
    by (simp add: rej errorText_def)
  have gen: "errorText (JsError msg) = ''Sorry, I encountered an error: '' @ msg"
    if "\<not> includes_str msg ''Failed to fetch'' \<and> \<not> includes_str msg ''500'' \<and> \<not> includes_str msg ''404''"
    using that by (simp add: errorText_def)
  have d: "\<not> includes_str msg ''Failed to fetch'' \<and> \<not> includes_str msg ''500'' \<and> \<not> includes_str msg ''404'' \<longrightarrow>
      ?text (Rejected (JsError msg)) = JStr (''Sorry, I encountered an error: '' @ msg) \<and>
      (ok r \<and> json_result r = Inl (JsError msg) \<longrightarrow>
         ?text (Resolved r) = JStr (''Sorry, I encountered an error: '' @ msg))"
    using gen rej[of "JsError msg"] bad[of "JsError msg"] by simp
  have u: "?text (Rejected NonError) = JStr unknown_error_text"
    by (simp add: rej errorText_def)
  have u2: "ok r \<and> json_result r = Inl NonError \<longrightarrow> ?text (Resolved r) = JStr unknown_error_text"
    using bad[of NonError] by (simp add: errorText_def)
  have f2: "\<not> ok r \<or> json_result r = Inl e \<longrightarrow>
      isError (last (messages (settle closure (Resolved r) now s))) = Some True"
    using hflag bflag[of e] by blast
  from a d u u2 t500 t404 tother flag f2 show ?thesis by blast
qed

theorem error_text_mapping_witness:
  "text_msg (last (messages (settle [] (Rejected (JsError ''TypeError: Failed to fetch'')) 2 (initial 0)))) = JStr cors_text \<and>
   text_msg (last (messages (settle [] (Rejected (JsError ''Unexpected end of JSON input'')) 2 (initial 0))))
     = JStr ''Sorry, I encountered an error: Unexpected end of JSON input'' \<and>
   text_msg (last (messages (settle [] (Resolved \<lparr>status = 500, json_result = Inr JNull\<rparr>) 2 (initial 0))))
     = JStr internal_error_text \<and>
   text_msg (last (messages (settle [] (Resolved \<lparr>status = 404, json_result = Inr JNull\<rparr>) 2 (initial 0))))
     = JStr not_found_text \<and>
   text_msg (last (messages (settle [] (Resolved \<lparr>status = 503, json_result = Inr JNull\<rparr>) 2 (initial 0))))
     = JStr ''Sorry, I encountered an error: HTTP error! status: 503'' \<and>
   text_msg (last (messages (settle [] (Resolved \<lparr>status = 200, json_result = Inl (JsError ''Unexpected end of JSON input'')\<rparr>) 2 (initial 0))))
     = JStr ''Sorry, I encountered an error: Unexpected end of JSON input''"
  using error_text_mapping [where msg = "''TypeError: Failed to fetch''" and closure = "[]" and now = 2
          and s = "initial 0" and r = "\<lparr>status = 500, json_result = Inr JNull\<rparr>"
          and e = "JsError ''Unexpected end of JSON input''"]
        error_text_mapping [where msg = "''Unexpected end of JSON input''" and closure = "[]" and now = 2
          and s = "initial 0" and r = "\<lparr>status = 404, json_result = Inr JNull\<rparr>"
          and e = "JsError ''Unexpected end of JSON input''"]
        error_text_mapping [where msg = "''Unexpected end of JSON input''" and closure = "[]" and now = 2
          and s = "initial 0" and r = "\<lparr>status = 503, json_result = Inr JNull\<rparr>"
          and e = "JsError ''Unexpected end of JSON input''"]
        error_text_mapping [where msg = "''Unexpected end of JSON input''" and closure = "[]" and now = 2
          and s = "initial 0" and r = "\<lparr>status = 200, json_result = Inl (JsError ''Unexpected end of JSON input'')\<rparr>"
          and e = "JsError ''Unexpected end of JSON input''"]
  by (simp add: ok_def show_nat.simps digit_char_def)

subsection \<open>What is sent is what was typed\<close>

text \<open>The serialization of a string can be read back: two strings with the same quoted form are
  the same string, so the request body determines the text it carries.\<close>

lemma hex_char_inj_table:
  "\<forall>a \<in> set [0..<16]. \<forall>b \<in> set [0..<16]. hex_char a = hex_char b \<longrightarrow> a = b"
  by code_simp

lemma hex_char_inj: "a < 16 \<Longrightarrow> b < 16 \<Longrightarrow> hex_char a = hex_char b \<Longrightarrow> a = b"
  using hex_char_inj_table by simp

lemma quote_char_shape:
  "(quote_char c = [c] \<and> c \<noteq> CHR 0x5C \<and> c \<noteq> CHR 0x22) \<or>
   (\<exists>x. quote_char c = [CHR 0x5C, x] \<and> x \<noteq> CHR ''u'') \<or>
   (quote_char c = [CHR 0x5C, CHR ''u'', CHR ''0'', CHR ''0'', hex_char (of_char c div 16), hex_char (of_char c mod 16)]
      \<and> (of_char c :: nat) < 32)"
  by (simp add: quote_char_def)

lemma quote_char_short_inj:
  "quote_char c = [CHR 0x5C, x] \<Longrightarrow> quote_char d = [CHR 0x5C, x] \<Longrightarrow> c = d"
  by (auto simp: quote_char_def split: if_splits)

lemma quote_char_long_inj:
  assumes "(of_char c :: nat) < 32" "(of_char d :: nat) < 32"
    and "hex_char (of_char c div 16) = hex_char (of_char d div 16)"
    and "hex_char (of_char c mod 16) = hex_char (of_char d mod 16)"
  shows "c = d"
proof -
  have "(of_char c :: nat) div 16 = of_char d div 16"
    using assms(1,2,3) by (intro hex_char_inj) simp_all
  moreover have "(of_char c :: nat) mod 16 = of_char d mod 16"
    using assms(4) by (intro hex_char_inj) simp_all
  ultimately have "(of_char c :: nat) = of_char d"
    by (metis div_mult_mod_eq)
  then show ?thesis by simp
qed

lemma quote_char_prefix_inj:
  assumes "quote_char c @ u = quote_char d @ v"
  shows "c = d"
  using quote_char_shape[of c] quote_char_shape[of d] assms
  by (auto dest: quote_char_short_inj quote_char_long_inj)


lemma quote_char_hd: "\<exists>x xs. quote_char c = x # xs \<and> x \<noteq> CHR 0x22"
  using quote_char_shape[of c] by auto

lemma concat_quote_inj:
  "concat (map quote_char a) @ CHR 0x22 # u = concat (map quote_char b) @ CHR 0x22 # v \<Longrightarrow> a = b"
proof (induction a arbitrary: b)
  case Nil
  show ?case
  proof (cases b)
    case (Cons d ds)
    obtain x xs where "quote_char d = x # xs" "x \<noteq> CHR 0x22" using quote_char_hd by blast
    with Nil Cons show ?thesis by simp
  qed simp
next
  case (Cons c cs)
  show ?case
  proof (cases b)
    case Nil
    obtain x xs where "quote_char c = x # xs" "x \<noteq> CHR 0x22" using quote_char_hd by blast
    with Cons.prems Nil show ?thesis by simp
  next
    case (Cons d ds)
    with Cons.prems have eq: "quote_char c @ (concat (map quote_char cs) @ CHR 0x22 # u) =
        quote_char d @ (concat (map quote_char ds) @ CHR 0x22 # v)" by simp
    then have cd: "c = d" by (rule quote_char_prefix_inj)
    with eq have "concat (map quote_char cs) @ CHR 0x22 # u = concat (map quote_char ds) @ CHR 0x22 # v"
      by simp
    then have "cs = ds" by (rule Cons.IH)
    with cd Cons show ?thesis by simp
  qed
qed

lemma quote_inj: "quote a @ u = quote b @ v \<Longrightarrow> a = b"
  using concat_quote_inj[of a u b v] by (simp add: quote_def)

lemma request_body_inj:
  "JSON_stringify (JObj [(''message'', JStr a)]) = JSON_stringify (JObj [(''message'', JStr b)]) \<Longrightarrow> a = b"
  using quote_inj[of a "''}''" b "''}''"] by simp

text \<open>
  Claim C10. An accepted submission with an endpoint appends a user message whose text is the
  draft as it stands, untrimmed, and posts the serialization of the object whose \<^verbatim>\<open>message\<close> is
  that same draft (no other text serializes to this body); the trimmed draft is only tested in
  the guard. The state that clears the draft is the one that already holds the user message, and
  the request was built from the draft before.
\<close>

theorem user_text_untrimmed:
  assumes "trim (inputMessage s) \<noteq> []" and "\<not> isLoading s" and "endpoint \<noteq> []"
  shows "\<exists>s' p m. sendMessage (Some endpoint) now s = (s', Some p) \<and>
           messages s' = messages s @ [m] \<and> sender m = user \<and> text_msg m = JStr (inputMessage s) \<and>
           url (issued p) = endpoint \<and> method_req (issued p) = ''POST'' \<and>
           body (issued p) = JSON_stringify (JObj [(''message'', JStr (inputMessage s))]) \<and>
           (\<forall>t. body (issued p) = JSON_stringify (JObj [(''message'', JStr t)]) \<longrightarrow> t = inputMessage s) \<and>
           inputMessage s' = []"
  using sendMessage_configured[OF assms, of now] request_body_inj by auto

theorem user_text_untrimmed_witness:
  "trim (inputMessage ((initial 0)\<lparr>inputMessage := ''  hi ''\<rparr>)) = ''hi'' \<and>
   (\<exists>s' p m. sendMessage (Some ''https://agent.example/'') 1 ((initial 0)\<lparr>inputMessage := ''  hi ''\<rparr>) = (s', Some p) \<and>
      messages s' = messages (initial 0) @ [m] \<and> text_msg m = JStr ''  hi '' \<and>
      body (issued p) = ''{'' @ [CHR 0x22] @ ''message'' @ [CHR 0x22] @ '':'' @ [CHR 0x22] @ ''  hi '' @ [CHR 0x22] @ ''}'' \<and>
      inputMessage s' = [])"
proof -
  let ?S = "(initial 0)\<lparr>inputMessage := ''  hi ''\<rparr>"
  have t: "trim (inputMessage ?S) = ''hi''" by (simp add: trim_def is_space_def)
  then have a: "trim (inputMessage ?S) \<noteq> []" by simp
  have b: "\<not> isLoading ?S" by (simp add: initial_def)
  have c: "''https://agent.example/'' \<noteq> []" by simp
  from user_text_untrimmed [OF a b c, of 1]
  obtain s' p m where "sendMessage (Some ''https://agent.example/'') 1 ?S = (s', Some p)"
    "messages s' = messages ?S @ [m]" "text_msg m = JStr (inputMessage ?S)"
    "body (issued p) = JSON_stringify (JObj [(''message'', JStr (inputMessage ?S))])"
    "inputMessage s' = []"
    by blast
  then have "sendMessage (Some ''https://agent.example/'') 1 ?S = (s', Some p) \<and>
      messages s' = messages (initial 0) @ [m] \<and> text_msg m = JStr ''  hi '' \<and>
      body (issued p) = ''{'' @ [CHR 0x22] @ ''message'' @ [CHR 0x22] @ '':'' @ [CHR 0x22] @ ''  hi '' @ [CHR 0x22] @ ''}'' \<and>
      inputMessage s' = []"
    by (simp add: quote_def quote_char_def)
  with t show ?thesis by blast
qed

end
